theory Spec2Isabelle
  imports Complex_Main
begin

section \<open>Values: what \<open>json.load\<close> and \<open>r.json()\<close> hand to the program\<close>

text \<open>
  A Python float read from JSON is a finite binary fraction, or one of the three tokens
  \<open>Infinity\<close>, \<open>-Infinity\<close> and \<open>NaN\<close> that Python's parser accepts. Only its truth value
  matters below, so a finite float is kept as the rational it denotes.
\<close>

datatype py_float = Finite rat | PosInf | NegInf | NaN

text \<open>
  A JSON value as Python holds it: \<open>None\<close>, \<open>bool\<close>, \<open>int\<close> (unbounded), \<open>float\<close>,
  \<open>str\<close>, \<open>list\<close> and \<open>dict\<close>. A \<open>dict\<close> is an association list in insertion order.
  A \<open>str\<close> is kept as its UTF-8 bytes; the only character the program looks for is the
  ASCII colon, which never occurs inside a multi-byte sequence.
\<close>

datatype json =
    JNull
  | JBool bool
  | JInt int
  | JFloat py_float
  | JStr string
  | JArr "json list"
  | JObj "(string \<times> json) list"

type_synonym dict = "(string \<times> json) list"

text \<open>The exceptions the program can meet, one constructor per concrete class.\<close>

datatype py_exception =
    ConnectionError        \<comment> \<open>\<open>requests\<close>: transport failure or timeout\<close>
  | HTTPError              \<comment> \<open>\<open>requests\<close>: \<open>raise_for_status\<close> on a 4xx/5xx answer\<close>
  | RequestsJSONDecodeError \<comment> \<open>\<open>requests.exceptions.JSONDecodeError\<close>, raised by \<open>r.json()\<close>\<close>
  | JSONDecodeError        \<comment> \<open>\<open>json.JSONDecodeError\<close>, raised by \<open>json.load\<close>\<close>
  | FileNotFoundError
  | IsADirectoryError
  | NotADirectoryError
  | PermissionError
  | OSError                \<comment> \<open>any other failure of the operating system on a file\<close>
  | UnicodeDecodeError
  | RecursionError
  | TypeError
  | AttributeError

text \<open>Python's truth value of an object (\<open>bool(x)\<close>), used by \<open>or\<close>, \<open>and\<close> and \<open>if\<close>.\<close>

fun truthy :: "json \<Rightarrow> bool" where
  "truthy JNull = False"
| "truthy (JBool b) = b"
| "truthy (JInt i) = (i \<noteq> 0)"
| "truthy (JFloat f) = (f \<noteq> Finite 0)"
| "truthy (JStr s) = (s \<noteq> [])"
| "truthy (JArr xs) = (xs \<noteq> [])"
| "truthy (JObj kvs) = (kvs \<noteq> [])"

text \<open>\<open>a or b\<close>: the left operand when it is true, else the right one, whatever it is.\<close>

definition py_or :: "json \<Rightarrow> json \<Rightarrow> json" where
  "py_or a b = (if truthy a then a else b)"

text \<open>\<open>d.get(k)\<close>: the value stored under \<open>k\<close>, and \<open>None\<close> when the key is missing.\<close>

definition dict_get :: "dict \<Rightarrow> string \<Rightarrow> json" where
  "dict_get d k = (case map_of d k of None \<Rightarrow> JNull | Some v \<Rightarrow> v)"

text \<open>\<open>d[k] = v\<close>: replaces the value of an existing key in place, else appends the key.\<close>

fun dict_set :: "dict \<Rightarrow> string \<Rightarrow> json \<Rightarrow> dict" where
  "dict_set [] k v = [(k, v)]"
| "dict_set ((k', v') # d) k v =
     (if k' = k then (k, v) # d else (k', v') # dict_set d k v)"

text \<open>
  \<open>":" in x\<close>: substring test on a \<open>str\<close>, element test on a \<open>list\<close>, key test on a
  \<open>dict\<close>; every other operand raises \<open>TypeError\<close> (argument is not iterable).
\<close>

fun colon_in :: "json \<Rightarrow> py_exception + bool" where
  "colon_in (JStr s) = Inr (CHR '':'' \<in> set s)"
| "colon_in (JArr xs) = Inr (JStr '':'' \<in> set xs)"
| "colon_in (JObj kvs) = Inr ('':'' \<in> set (map fst kvs))"
| "colon_in JNull = Inl TypeError"
| "colon_in (JBool b) = Inl TypeError"
| "colon_in (JInt i) = Inl TypeError"
| "colon_in (JFloat f) = Inl TypeError"

section \<open>The normalizer\<close>

text \<open>Line 67: \<open>data.get("ip") or data.get("query") or data.get("ip_address")\<close>.\<close>

definition resolved_ip :: "dict \<Rightarrow> json" where
  "resolved_ip data =
     py_or (py_or (dict_get data ''ip'') (dict_get data ''query'')) (dict_get data ''ip_address'')"

text \<open>
  Line 69: \<open>"IPv6" if ip and ":" in ip else "IPv4"\<close>. The membership test runs only when
  \<open>ip\<close> is true, and is the one place of the function that can raise.
\<close>

definition version_of :: "json \<Rightarrow> py_exception + json" where
  "version_of ip =
     (if truthy ip
      then (case colon_in ip of
              Inl e \<Rightarrow> Inl e
            | Inr c \<Rightarrow> Inr (JStr (if c then ''IPv6'' else ''IPv4'')))
      else Inr (JStr ''IPv4''))"

text \<open>\<open>normalize_data\<close>, lines 64-83, applied to a \<open>dict\<close>; assignments in source order.\<close>

definition normalize_data :: "dict \<Rightarrow> py_exception + dict" where
  "normalize_data data =
     (let normalized = [];
          ip = resolved_ip data;
          normalized = dict_set normalized ''ip'' ip
      in case version_of ip of
           Inl e \<Rightarrow> Inl e
         | Inr version \<Rightarrow>
             (let normalized = dict_set normalized ''version'' version;
                  normalized = dict_set normalized ''city'' (dict_get data ''city'');
                  normalized = dict_set normalized ''region''
                    (py_or (dict_get data ''region'') (dict_get data ''region_name''));
                  normalized = dict_set normalized ''country''
                    (py_or (dict_get data ''country_name'') (dict_get data ''country''));
                  normalized = dict_set normalized ''country_code''
                    (py_or (dict_get data ''country'') (dict_get data ''country_code''));
                  normalized = dict_set normalized ''latitude''
                    (py_or (dict_get data ''latitude'') (dict_get data ''lat''));
                  normalized = dict_set normalized ''longitude''
                    (py_or (py_or (dict_get data ''longitude'') (dict_get data ''lon''))
                           (dict_get data ''lng''));
                  normalized = dict_set normalized ''timezone'' (dict_get data ''timezone'');
                  normalized = dict_set normalized ''isp''
                    (py_or (dict_get data ''org'') (dict_get data ''isp''));
                  normalized = dict_set normalized ''asn''
                    (py_or (dict_get data ''asn'') (dict_get data ''as''));
                  normalized = dict_set normalized ''org'' (dict_get data ''org'')
              in Inr normalized))"

text \<open>
  Lines 149-151 of \<open>main\<close>: \<open>if args.manual_ip:\<close> overwrites \<open>ip\<close> and recomputes
  \<open>version\<close>. The option is \<open>None\<close> when the flag is not given, and an empty string
  is false.
\<close>

definition manual_override :: "string option \<Rightarrow> dict \<Rightarrow> dict" where
  "manual_override manual_ip data =
     (case manual_ip of
        None \<Rightarrow> data
      | Some m \<Rightarrow>
          (if m = [] then data
           else (let data = dict_set data ''ip'' (JStr m);
                     data = dict_set data ''version''
                              (JStr (if CHR '':'' \<in> set m then ''IPv6'' else ''IPv4''))
                 in data)))"

subsection \<open>The candidate table of the specification\<close>

text \<open>
  The specification gives the normalizer as a table: each canonical field with its
  candidate keys, in the order they are tried. \<open>first_non_null\<close> follows the
  specification's words (the first candidate that is not null wins); \<open>first_truthy\<close>
  is the reading under Python's \<open>or\<close> (the first candidate that is true wins, and when
  none is, the value of the last candidate is the result).
\<close>

definition candidate_table :: "(string \<times> string list) list" where
  "candidate_table =
     [(''ip'', [''ip'', ''query'', ''ip_address'']),
      (''city'', [''city'']),
      (''region'', [''region'', ''region_name'']),
      (''country'', [''country_name'', ''country'']),
      (''country_code'', [''country'', ''country_code'']),
      (''latitude'', [''latitude'', ''lat'']),
      (''longitude'', [''longitude'', ''lon'', ''lng'']),
      (''timezone'', [''timezone'']),
      (''isp'', [''org'', ''isp'']),
      (''asn'', [''asn'', ''as'']),
      (''org'', [''org''])]"

definition first_non_null :: "json list \<Rightarrow> json" where
  "first_non_null vs = (case filter (\<lambda>v. v \<noteq> JNull) vs of [] \<Rightarrow> JNull | v # _ \<Rightarrow> v)"

definition first_truthy :: "json list \<Rightarrow> json" where
  "first_truthy vs =
     (case filter truthy vs of
        v # _ \<Rightarrow> v
      | [] \<Rightarrow> (if vs = [] then JNull else last vs))"

text \<open>A key is missing from a raw record when the record does not contain it at all.\<close>

definition missing :: "dict \<Rightarrow> string \<Rightarrow> bool" where
  "missing data k = (map_of data k = None)"

text \<open>
  The values on which \<open>":" in x\<close> raises when they are true: \<open>bool\<close>, \<open>int\<close> and
  \<open>float\<close> are not iterable.
\<close>

fun scalar_number :: "json \<Rightarrow> bool" where
  "scalar_number (JBool b) = True"
| "scalar_number (JInt i) = True"
| "scalar_number (JFloat f) = True"
| "scalar_number JNull = False"
| "scalar_number (JStr s) = False"
| "scalar_number (JArr xs) = False"
| "scalar_number (JObj kvs) = False"

section \<open>The presenter\<close>

definition FIELD_LABELS :: "(string \<times> string) list" where
  "FIELD_LABELS =
     [(''ip'', ''Public IP Address''),
      (''version'', ''IP Version''),
      (''city'', ''City''),
      (''region'', ''Region''),
      (''country'', ''Country''),
      (''country_code'', ''Country Code''),
      (''latitude'', ''Latitude''),
      (''longitude'', ''Longitude''),
      (''timezone'', ''Timezone''),
      (''isp'', ''ISP / Provider''),
      (''asn'', ''ASN''),
      (''org'', ''Organization'')]"

text \<open>
  What the program writes to the console, one constructor per \<open>print\<close> call; the
  formatting of a value into text is left to Python. An information line carries the
  label and the value, \<open>None\<close> standing for the text \<open>N/A\<close>.
\<close>

datatype console_line =
    RunningCheck int int
  | InfoHeader
  | InfoLine string "json option"
  | InfoFooter
  | AppendedToHistory string
  | NetworkApiError py_exception
  | MockFileNotFound py_exception
  | InvalidJson py_exception
  | UnexpectedError py_exception
  | NoFieldsSpecified
  | DoneLine

definition print_selected :: "dict \<Rightarrow> string list \<Rightarrow> console_line list" where
  "print_selected data fields =
     [InfoHeader] @
     map (\<lambda>f. InfoLine (case map_of FIELD_LABELS f of None \<Rightarrow> f | Some label \<Rightarrow> label)
                        (if dict_get data f \<noteq> JNull then Some (dict_get data f) else None))
         fields @
     [InfoFooter]"

section \<open>The history writer\<close>

text \<open>
  The file system as the history writer sees it: a path holds nothing, a directory, or
  a regular file whose content is the list of CSV rows written so far (a row is the list
  of its cells; the quoting of a cell into text is left to the \<open>csv\<close> module).
  \<open>parent_exists\<close> says whether the directory part of a path exists, which decides
  whether a new file can be created there.
\<close>

datatype fs_node = Directory | RegularFile "json list list"

record filesystem =
  nodes :: "string \<Rightarrow> fs_node option"
  parent_exists :: "string \<Rightarrow> bool"

text \<open>\<open>os.path.isfile\<close>.\<close>

definition isfile :: "filesystem \<Rightarrow> string \<Rightarrow> bool" where
  "isfile fs path = (case nodes fs path of Some (RegularFile rows) \<Rightarrow> True | _ \<Rightarrow> False)"

text \<open>
  \<open>open(path, "a")\<close>: an existing regular file is opened as it is, a missing one is
  created empty when its directory exists; otherwise the call raises.
\<close>

definition open_append :: "filesystem \<Rightarrow> string \<Rightarrow> py_exception + filesystem" where
  "open_append fs path =
     (case nodes fs path of
        Some (RegularFile rows) \<Rightarrow> Inr fs
      | Some Directory \<Rightarrow> Inl IsADirectoryError
      | None \<Rightarrow>
          (if parent_exists fs path
           then Inr (fs\<lparr>nodes := (nodes fs)(path \<mapsto> RegularFile [])\<rparr>)
           else Inl FileNotFoundError))"

definition write_row :: "filesystem \<Rightarrow> string \<Rightarrow> json list \<Rightarrow> filesystem" where
  "write_row fs path row =
     (case nodes fs path of
        Some (RegularFile rows) \<Rightarrow> fs\<lparr>nodes := (nodes fs)(path \<mapsto> RegularFile (rows @ [row]))\<rparr>
      | _ \<Rightarrow> fs)"


text \<open>
  \<open>append_history_csv\<close>, lines 94-103. \<open>utcnow\<close> is the text that
  \<open>datetime.utcnow().isoformat()\<close> returns at the call. The row is a \<open>dict\<close> that
  starts with the timestamp and then receives one assignment per field;
  \<open>DictWriter.writerow\<close> writes its values in the order of \<open>fieldnames\<close>.
  (The parameter \<open>fields\<close> is written \<open>flds\<close>.)
\<close>

definition append_history_csv ::
  "filesystem \<Rightarrow> string \<Rightarrow> string \<Rightarrow> string list \<Rightarrow> dict \<Rightarrow> py_exception + filesystem" where
  "append_history_csv fs utcnow path flds data =
     (let file_exists = isfile fs path
      in case open_append fs path of
           Inl e \<Rightarrow> Inl e
         | Inr fs \<Rightarrow>
             (let fieldnames = ''timestamp'' # flds;
                  fs = (if \<not> file_exists then write_row fs path (map JStr fieldnames) else fs);
                  row = [(''timestamp'', JStr (utcnow @ ''Z''))];
                  row = foldl (\<lambda>row f. dict_set row f (dict_get data f)) row flds;
                  fs = write_row fs path (map (dict_get row) fieldnames)
              in Inr fs))"


section \<open>The data source\<close>

text \<open>
  What \<open>load_mock\<close> meets at the mock path, lines 59-61. \<open>open(path, "r")\<close> raises
  \<open>FileNotFoundError\<close> when nothing is there, \<open>IsADirectoryError\<close> on a directory,
  \<open>NotADirectoryError\<close> when a part of the path is not a directory, \<open>PermissionError\<close>
  on a file that may not be read, and another \<open>OSError\<close> on any other failure of the
  operating system. \<open>json.load\<close> first reads the file as UTF-8, raising
  \<open>UnicodeDecodeError\<close> on bytes that are not, and then parses the text, raising
  \<open>json.JSONDecodeError\<close> on a text that is not JSON and \<open>RecursionError\<close> on one
  nested too deeply.
\<close>

datatype mock_file =
    MockMissing
  | MockIsDirectory
  | MockUnderFile
  | MockUnreadable
  | MockIOFailure
  | MockNotUTF8
  | MockInvalid
  | MockTooDeep
  | MockJSON json

definition load_mock :: "mock_file \<Rightarrow> py_exception + json" where
  "load_mock f =
     (case f of
        MockMissing \<Rightarrow> Inl FileNotFoundError
      | MockIsDirectory \<Rightarrow> Inl IsADirectoryError
      | MockUnderFile \<Rightarrow> Inl NotADirectoryError
      | MockUnreadable \<Rightarrow> Inl PermissionError
      | MockIOFailure \<Rightarrow> Inl OSError
      | MockNotUTF8 \<Rightarrow> Inl UnicodeDecodeError
      | MockInvalid \<Rightarrow> Inl JSONDecodeError
      | MockTooDeep \<Rightarrow> Inl RecursionError
      | MockJSON j \<Rightarrow> Inr j)"

text \<open>
  What one GET brings back. \<open>requests.get\<close> raises on a transport failure,
  \<open>raise_for_status\<close> on an error status, and \<open>r.json()\<close> on a body that is not JSON.
  The last exception is \<open>requests.exceptions.JSONDecodeError\<close>, which the library
  (from version 2.27) derives from both \<open>RequestException\<close> and
  \<open>json.JSONDecodeError\<close>.
\<close>

datatype http_reply = TransportFailure | ErrorStatus | InvalidBody | JSONBody json

definition fetch_live :: "http_reply \<Rightarrow> py_exception + json" where
  "fetch_live r =
     (case r of
        TransportFailure \<Rightarrow> Inl ConnectionError
      | ErrorStatus \<Rightarrow> Inl HTTPError
      | InvalidBody \<Rightarrow> Inl RequestsJSONDecodeError
      | JSONBody j \<Rightarrow> Inr j)"

text \<open>
  \<open>isinstance\<close> for the three classes that the \<open>except\<close> clauses of \<open>main\<close> name.
  Each constructor of \<open>py_exception\<close> is one concrete class: \<open>IsADirectoryError\<close>,
  \<open>NotADirectoryError\<close> and \<open>PermissionError\<close> derive from \<open>OSError\<close> beside
  \<open>FileNotFoundError\<close>, not from it, and \<open>UnicodeDecodeError\<close> derives from
  \<open>ValueError\<close> beside \<open>json.JSONDecodeError\<close>.
\<close>

definition is_RequestException :: "py_exception \<Rightarrow> bool" where
  "is_RequestException e =
     (e = ConnectionError \<or> e = HTTPError \<or> e = RequestsJSONDecodeError)"

definition is_FileNotFoundError :: "py_exception \<Rightarrow> bool" where
  "is_FileNotFoundError e = (e = FileNotFoundError)"

definition is_JSONDecodeError :: "py_exception \<Rightarrow> bool" where
  "is_JSONDecodeError e = (e = JSONDecodeError \<or> e = RequestsJSONDecodeError)"

section \<open>The scheduler loop\<close>

text \<open>
  The parsed command line. \<open>selected\<close> is the list \<open>fields\<close> that \<open>main\<close> prepares at
  line 129 from the \<open>--fields\<close> text (split at commas, stripped, empty items dropped).
\<close>

record args =
  mock :: "string option"
  manual_ip :: "string option"
  selected :: "string list"
  interval :: int
  count :: int
  save_history :: "string option"
  api_url :: string
  timeout :: int
  no_print_time :: bool

text \<open>
  The world outside the program, asked once per cycle: what the mock path holds, what
  the endpoint answers, and what the UTC clock reads, each at the cycle's number.
\<close>

record environment =
  mock_read :: "string \<Rightarrow> nat \<Rightarrow> mock_file"
  http_get :: "string \<Rightarrow> int \<Rightarrow> nat \<Rightarrow> http_reply"
  utcnow_iso :: "nat \<Rightarrow> string"

text \<open>What the program does to the world, in order.\<close>

datatype action =
    Print console_line
  | LoadMock string
  | FetchLive string int
  | Sleep int

record state =
  disk :: filesystem
  actions :: "action list"

definition emit :: "action \<Rightarrow> state \<Rightarrow> state" where
  "emit a st = st\<lparr>actions := actions st @ [a]\<rparr>"

definition emit_lines :: "console_line list \<Rightarrow> state \<Rightarrow> state" where
  "emit_lines ls st = st\<lparr>actions := actions st @ map Print ls\<rparr>"

text \<open>An option of the command line is true when it is given and not empty.\<close>

definition given :: "string option \<Rightarrow> bool" where
  "given opt = (case opt of None \<Rightarrow> False | Some s \<Rightarrow> s \<noteq> [])"

text \<open>
  Lines 141-144: the data source of one cycle, selected by \<open>if args.mock\<close>. The call
  made, and what it returns or raises.
\<close>

definition data_source :: "args \<Rightarrow> environment \<Rightarrow> int \<Rightarrow> action \<times> (py_exception + json)" where
  "data_source a env run_count =
     (if given (mock a)
      then (case mock a of
              Some path \<Rightarrow> (LoadMock path, load_mock (mock_read env path (nat run_count)))
            | None \<Rightarrow> (FetchLive (api_url a) (timeout a),
                       fetch_live (http_get env (api_url a) (timeout a) (nat run_count))))
      else (FetchLive (api_url a) (timeout a),
            fetch_live (http_get env (api_url a) (timeout a) (nat run_count))))"

text \<open>
  The body of the \<open>try\<close>, lines 137-159: the state it leaves and the exception it
  raised, if any. \<open>data.get\<close> on a JSON value that is not an object raises
  \<open>AttributeError\<close> at the first line of \<open>normalize_data\<close>.
\<close>

definition try_body :: "args \<Rightarrow> environment \<Rightarrow> int \<Rightarrow> state \<Rightarrow> state \<times> py_exception option" where
  "try_body a env run_count st =
     (let st = (if \<not> no_print_time a
                then emit (Print (RunningCheck (run_count + 1) (count a))) st else st);
          st = emit (fst (data_source a env run_count)) st
      in case snd (data_source a env run_count) of
           Inl e \<Rightarrow> (st, Some e)
         | Inr data_raw \<Rightarrow>
             (case (case data_raw of JObj kvs \<Rightarrow> normalize_data kvs | _ \<Rightarrow> Inl AttributeError) of
                Inl e \<Rightarrow> (st, Some e)
              | Inr data \<Rightarrow>
                  (let data = manual_override (manual_ip a) data;
                       st = emit_lines (print_selected data (selected a)) st
                   in if given (save_history a)
                      then (case save_history a of
                              None \<Rightarrow> (st, None)
                            | Some hist \<Rightarrow>
                                (case append_history_csv (disk st) (utcnow_iso env (nat run_count))
                                        hist (selected a) data of
                                   Inl e \<Rightarrow> (st, Some e)
                                 | Inr fs \<Rightarrow>
                                     (emit (Print (AppendedToHistory hist)) (st\<lparr>disk := fs\<rparr>),
                                      None)))
                      else (st, None))))"

text \<open>
  The \<open>except\<close> clauses, lines 161-170, tried in source order: the line printed, and
  whether the clause ends with \<open>break\<close>.
\<close>

definition except_clauses :: "py_exception \<Rightarrow> console_line \<times> bool" where
  "except_clauses e =
     (if is_RequestException e then (NetworkApiError e, False)
      else if is_FileNotFoundError e then (MockFileNotFound e, True)
      else if is_JSONDecodeError e then (InvalidJson e, True)
      else (UnexpectedError e, False))"

text \<open>One \<open>try\<close> statement: the state after it and whether it left the loop by \<open>break\<close>.\<close>

definition try_except :: "args \<Rightarrow> environment \<Rightarrow> int \<Rightarrow> state \<Rightarrow> state \<times> bool" where
  "try_except a env run_count st =
     (case try_body a env run_count st of
        (st, None) \<Rightarrow> (st, False)
      | (st, Some e) \<Rightarrow> (emit (Print (fst (except_clauses e))) st, snd (except_clauses e)))"

text \<open>
  How the loop was left: \<open>Aborted\<close> by a \<open>break\<close> inside an \<open>except\<close> clause, \<open>Done\<close>
  when the configured runs are exhausted (the loop condition, or the \<open>break\<close> of line 174).
\<close>

datatype exit_state = Done | Aborted

text \<open>
  The \<open>while\<close> loop, lines 135-181, from a given \<open>run_count\<close>: how it was left, the final
  \<open>run_count\<close> and the final state.
\<close>

function main_loop :: "args \<Rightarrow> environment \<Rightarrow> int \<Rightarrow> state \<Rightarrow> exit_state \<times> int \<times> state" where
  "main_loop a env run_count st =
     (if run_count < count a then
        (let r = try_except a env run_count st
         in if snd r then (Aborted, run_count, fst r)
            else if run_count + 1 \<ge> count a then (Done, run_count + 1, fst r)
            else main_loop a env (run_count + 1)
                   (emit (Sleep (if interval a > 0 then interval a else 1)) (fst r)))
      else (Done, run_count, st))"
  by pat_completeness auto
termination
  by (relation "measure (\<lambda>(a, env, run_count, st). nat (count a - run_count))") auto

text \<open>
  \<open>main\<close>, lines 125-183, from the parsed arguments: the exit code, how the loop was left
  (when it was entered at all) and the final state.
\<close>

definition main :: "args \<Rightarrow> environment \<Rightarrow> filesystem \<Rightarrow> int \<times> exit_state option \<times> state" where
  "main a env fs =
     (let st = \<lparr>disk = fs, actions = []\<rparr>
      in if selected a = [] then (1, None, emit (Print NoFieldsSpecified) st)
         else (case main_loop a env 0 st of
                 (ex, run_count, st) \<Rightarrow> (0, Some ex, emit (Print DoneLine) st)))"

text \<open>The number of data-source calls in a sequence of actions.\<close>

fun is_fetch :: "action \<Rightarrow> bool" where
  "is_fetch (LoadMock p) = True"
| "is_fetch (FetchLive u t) = True"
| "is_fetch (Print l) = False"
| "is_fetch (Sleep n) = False"

definition fetches :: "state \<Rightarrow> nat" where
  "fetches st = length (filter is_fetch (actions st))"

text \<open>The number of rendered information blocks, one per presented record.\<close>

definition presented :: "state \<Rightarrow> nat" where
  "presented st = length (filter (\<lambda>x. x = Print InfoHeader) (actions st))"

text \<open>
  Two conditions on a run, used to say when the loop is never left by \<open>break\<close>: the data
  source of cycle \<open>n\<close> returns a value, and the directory of the history path exists.
\<close>

definition source_succeeds :: "args \<Rightarrow> environment \<Rightarrow> int \<Rightarrow> bool" where
  "source_succeeds a env n = (case snd (data_source a env n) of Inl e \<Rightarrow> False | Inr j \<Rightarrow> True)"

definition history_dir_exists :: "args \<Rightarrow> state \<Rightarrow> bool" where
  "history_dir_exists a st =
     (case save_history a of None \<Rightarrow> True | Some hist \<Rightarrow> parent_exists (disk st) hist)"

section \<open>Properties of the normalizer\<close>

text \<open>The record that \<open>normalize_data\<close> returns, written out.\<close>

lemma normalize_data_Inr:
  assumes "version_of (resolved_ip data) = Inr v"
  shows "normalize_data data = Inr
     [(''ip'', resolved_ip data),
      (''version'', v),
      (''city'', dict_get data ''city''),
      (''region'', py_or (dict_get data ''region'') (dict_get data ''region_name'')),
      (''country'', py_or (dict_get data ''country_name'') (dict_get data ''country'')),
      (''country_code'', py_or (dict_get data ''country'') (dict_get data ''country_code'')),
      (''latitude'', py_or (dict_get data ''latitude'') (dict_get data ''lat'')),
      (''longitude'', py_or (py_or (dict_get data ''longitude'') (dict_get data ''lon''))
                           (dict_get data ''lng'')),
      (''timezone'', dict_get data ''timezone''),
      (''isp'', py_or (dict_get data ''org'') (dict_get data ''isp'')),
      (''asn'', py_or (dict_get data ''asn'') (dict_get data ''as'')),
      (''org'', dict_get data ''org'')]"
  using assms by (simp add: normalize_data_def)

lemma normalize_data_Inl:
  "version_of (resolved_ip data) = Inl e \<Longrightarrow> normalize_data data = Inl e"
  by (simp add: normalize_data_def)

lemma normalize_data_returns:
  assumes "normalize_data data = Inr d"
  obtains v where "version_of (resolved_ip data) = Inr v"
    and "d = [(''ip'', resolved_ip data),
      (''version'', v),
      (''city'', dict_get data ''city''),
      (''region'', py_or (dict_get data ''region'') (dict_get data ''region_name'')),
      (''country'', py_or (dict_get data ''country_name'') (dict_get data ''country'')),
      (''country_code'', py_or (dict_get data ''country'') (dict_get data ''country_code'')),
      (''latitude'', py_or (dict_get data ''latitude'') (dict_get data ''lat'')),
      (''longitude'', py_or (py_or (dict_get data ''longitude'') (dict_get data ''lon''))
                           (dict_get data ''lng'')),
      (''timezone'', dict_get data ''timezone''),
      (''isp'', py_or (dict_get data ''org'') (dict_get data ''isp'')),
      (''asn'', py_or (dict_get data ''asn'') (dict_get data ''as'')),
      (''org'', dict_get data ''org'')]"
proof (cases "version_of (resolved_ip data)")
  case (Inl e)
  with assms normalize_data_Inl[OF Inl] show ?thesis by simp
next
  case (Inr v)
  with assms normalize_data_Inr[OF Inr] that show ?thesis by simp
qed

lemma normalize_data_version:
  assumes "normalize_data data = Inr d"
  shows "version_of (resolved_ip data) = Inr (dict_get d ''version'')"
proof -
  from assms obtain v
    where "version_of (resolved_ip data) = Inr v" and "dict_get d ''version'' = v"
    by (rule normalize_data_returns) (simp add: dict_get_def)
  then show ?thesis by simp
qed

lemma normalize_data_ip:
  assumes "normalize_data data = Inr d"
  shows "dict_get d ''ip'' = resolved_ip data"
  using assms by (rule normalize_data_returns) (simp add: dict_get_def)

lemma normalize_data_empty:
  "normalize_data [] = Inr
     [(''ip'', JNull), (''version'', JStr ''IPv4''), (''city'', JNull), (''region'', JNull),
      (''country'', JNull), (''country_code'', JNull), (''latitude'', JNull),
      (''longitude'', JNull), (''timezone'', JNull), (''isp'', JNull), (''asn'', JNull),
      (''org'', JNull)]"
  by (simp add: normalize_data_def resolved_ip_def version_of_def dict_get_def py_or_def)

lemma resolved_ip_empty: "resolved_ip [] = JNull"
  by (simp add: resolved_ip_def dict_get_def py_or_def)

lemma version_of_str:
  "version_of (JStr s) = Inr (JStr (if CHR '':'' \<in> set s then ''IPv6'' else ''IPv4''))"
  by (cases s) (simp_all add: version_of_def)

lemma version_of_safe:
  assumes "scalar_number ip \<Longrightarrow> \<not> truthy ip"
  shows "\<exists>v. version_of ip = Inr v"
  using assms by (cases ip) (auto simp add: version_of_def)

lemma dict_get_dict_set:
  "dict_get (dict_set d k v) k' = (if k' = k then v else dict_get d k')"
  by (induction d) (auto simp add: dict_get_def)

lemma dict_get_missing: "missing data k \<Longrightarrow> dict_get data k = JNull"
  by (simp add: missing_def dict_get_def)

lemma first_truthy_1: "first_truthy [a] = a"
  by (simp add: first_truthy_def)

lemma first_truthy_2: "first_truthy [a, b] = py_or a b"
  by (simp add: first_truthy_def py_or_def)

lemma first_truthy_3: "first_truthy [a, b, c] = py_or (py_or a b) c"
  by (simp add: first_truthy_def py_or_def)

lemma first_truthy_all_null:
  assumes "\<forall>v \<in> set vs. v = JNull"
  shows "first_truthy vs = JNull"
proof -
  from assms have "filter truthy vs = []" by (auto simp add: filter_empty_conv)
  moreover from assms have "vs \<noteq> [] \<Longrightarrow> last vs = JNull" by simp
  ultimately show ?thesis by (simp add: first_truthy_def)
qed

text \<open>
  Every field of the candidate table holds the first true candidate of its row, and the
  last candidate when none is true.
\<close>

lemma normalized_field:
  assumes "normalize_data data = Inr d" and "(f, ks) \<in> set candidate_table"
  shows "dict_get d f = first_truthy (map (dict_get data) ks)"
proof -
  from assms(1) obtain v where d: "d = [(''ip'', resolved_ip data),
      (''version'', v),
      (''city'', dict_get data ''city''),
      (''region'', py_or (dict_get data ''region'') (dict_get data ''region_name'')),
      (''country'', py_or (dict_get data ''country_name'') (dict_get data ''country'')),
      (''country_code'', py_or (dict_get data ''country'') (dict_get data ''country_code'')),
      (''latitude'', py_or (dict_get data ''latitude'') (dict_get data ''lat'')),
      (''longitude'', py_or (py_or (dict_get data ''longitude'') (dict_get data ''lon''))
                           (dict_get data ''lng'')),
      (''timezone'', dict_get data ''timezone''),
      (''isp'', py_or (dict_get data ''org'') (dict_get data ''isp'')),
      (''asn'', py_or (dict_get data ''asn'') (dict_get data ''as'')),
      (''org'', dict_get data ''org'')]"
    by (rule normalize_data_returns)
  have g: "dict_get d ''ip'' = resolved_ip data"
      "dict_get d ''city'' = dict_get data ''city''"
      "dict_get d ''region'' = py_or (dict_get data ''region'') (dict_get data ''region_name'')"
      "dict_get d ''country'' = py_or (dict_get data ''country_name'') (dict_get data ''country'')"
      "dict_get d ''country_code'' =
         py_or (dict_get data ''country'') (dict_get data ''country_code'')"
      "dict_get d ''latitude'' = py_or (dict_get data ''latitude'') (dict_get data ''lat'')"
      "dict_get d ''longitude'' =
         py_or (py_or (dict_get data ''longitude'') (dict_get data ''lon'')) (dict_get data ''lng'')"
      "dict_get d ''timezone'' = dict_get data ''timezone''"
      "dict_get d ''isp'' = py_or (dict_get data ''org'') (dict_get data ''isp'')"
      "dict_get d ''asn'' = py_or (dict_get data ''asn'') (dict_get data ''as'')"
      "dict_get d ''org'' = dict_get data ''org''"
    unfolding d by (simp_all add: dict_get_def)
  from assms(2) have "(f, ks) = (''ip'', [''ip'', ''query'', ''ip_address'']) \<or>
      (f, ks) = (''city'', [''city'']) \<or>
      (f, ks) = (''region'', [''region'', ''region_name'']) \<or>
      (f, ks) = (''country'', [''country_name'', ''country'']) \<or>
      (f, ks) = (''country_code'', [''country'', ''country_code'']) \<or>
      (f, ks) = (''latitude'', [''latitude'', ''lat'']) \<or>
      (f, ks) = (''longitude'', [''longitude'', ''lon'', ''lng'']) \<or>
      (f, ks) = (''timezone'', [''timezone'']) \<or>
      (f, ks) = (''isp'', [''org'', ''isp'']) \<or>
      (f, ks) = (''asn'', [''asn'', ''as'']) \<or>
      (f, ks) = (''org'', [''org''])"
    by (simp add: candidate_table_def)
  then show ?thesis
    by (elim disjE)
       (simp_all only: prod.inject g list.map first_truthy_1 first_truthy_2 first_truthy_3
          resolved_ip_def)
qed

text \<open>
  C1 (as amended). When the resolved \<open>ip\<close> is null, \<open>normalize_data\<close> returns a record
  whose \<open>ip\<close> is null and whose \<open>version\<close> is the text \<open>IPv4\<close>: the guard \<open>ip and\<close> of
  line 69 sends a null \<open>ip\<close> to the \<open>else\<close> branch.
\<close>

theorem normalize_data_null_ip_version:
  assumes "resolved_ip data = JNull"
  shows "\<exists>d. normalize_data data = Inr d \<and> dict_get d ''ip'' = JNull \<and>
             dict_get d ''version'' = JStr ''IPv4''"
proof -
  from assms have v: "version_of (resolved_ip data) = Inr (JStr ''IPv4'')"
    by (simp add: version_of_def)
  from normalize_data_Inr[OF v] obtain d where d: "normalize_data data = Inr d" by blast
  from normalize_data_version[OF d] v normalize_data_ip[OF d] assms d show ?thesis by simp
qed

theorem normalize_data_null_ip_version_witness:
  "resolved_ip [] = JNull \<and>
   (\<exists>d. normalize_data [] = Inr d \<and> dict_get d ''ip'' = JNull \<and>
        dict_get d ''version'' = JStr ''IPv4'')"
  using normalize_data_null_ip_version[OF resolved_ip_empty] resolved_ip_empty by simp

text \<open>
  C1 as stated fails on the empty record: none of the three candidate keys is there, the
  resolved \<open>ip\<close> is null, and the returned record carries the version \<open>IPv4\<close>.
\<close>

theorem normalize_data_null_ip_counterexample:
  "missing [] ''ip'' \<and> missing [] ''query'' \<and> missing [] ''ip_address'' \<and>
   resolved_ip [] = JNull \<and>
   normalize_data [] = Inr
     [(''ip'', JNull), (''version'', JStr ''IPv4''), (''city'', JNull), (''region'', JNull),
      (''country'', JNull), (''country_code'', JNull), (''latitude'', JNull),
      (''longitude'', JNull), (''timezone'', JNull), (''isp'', JNull), (''asn'', JNull),
      (''org'', JNull)]"
  by (simp add: normalize_data_empty resolved_ip_empty missing_def)

text \<open>
  C2. When the resolved \<open>ip\<close> is a string, \<open>normalize_data\<close> returns a record whose
  \<open>version\<close> is \<open>IPv6\<close> exactly when the string contains a colon, and \<open>IPv4\<close> exactly
  when it does not.
\<close>

theorem normalize_data_version_of_string:
  assumes "resolved_ip data = JStr s"
  shows "\<exists>d. normalize_data data = Inr d \<and>
             ((dict_get d ''version'' = JStr ''IPv6'') = (CHR '':'' \<in> set s)) \<and>
             ((dict_get d ''version'' = JStr ''IPv4'') = (CHR '':'' \<notin> set s))"
proof -
  have v: "version_of (resolved_ip data) =
             Inr (JStr (if CHR '':'' \<in> set s then ''IPv6'' else ''IPv4''))"
    using assms by (simp only: version_of_str)
  from normalize_data_Inr[OF v] obtain d where d: "normalize_data data = Inr d" by blast
  from normalize_data_version[OF d] v
  have "dict_get d ''version'' = JStr (if CHR '':'' \<in> set s then ''IPv6'' else ''IPv4'')"
    by simp
  with d show ?thesis by auto
qed

lemma resolved_ip_query: "resolved_ip [(''query'', JStr ''2001:db8::1'')] = JStr ''2001:db8::1''"
  by (simp add: resolved_ip_def dict_get_def py_or_def)

theorem normalize_data_version_of_string_witness:
  "resolved_ip [(''query'', JStr ''2001:db8::1'')] = JStr ''2001:db8::1'' \<and>
   (\<exists>d. normalize_data [(''query'', JStr ''2001:db8::1'')] = Inr d \<and>
        dict_get d ''version'' = JStr ''IPv6'')"
  using normalize_data_version_of_string[OF resolved_ip_query] resolved_ip_query by auto

text \<open>
  C3 (as amended). In a returned record every field of the candidate table holds the
  first candidate, left to right, whose value is true in Python's sense (not null, false,
  zero or empty), also when later candidates are present; when no candidate is true the
  field holds the value of the last candidate.
\<close>

theorem normalize_data_first_truthy:
  assumes "normalize_data data = Inr d"
  shows "\<forall>(f, ks) \<in> set candidate_table. dict_get d f = first_truthy (map (dict_get data) ks)"
  using assms by (auto dest: normalized_field)

lemma normalize_data_equator:
  "normalize_data [(''latitude'', JInt 0), (''lat'', JInt 5), (''org'', JStr ''Acme''),
                   (''isp'', JStr ''Other'')] = Inr
     [(''ip'', JNull), (''version'', JStr ''IPv4''), (''city'', JNull), (''region'', JNull),
      (''country'', JNull), (''country_code'', JNull), (''latitude'', JInt 5),
      (''longitude'', JNull), (''timezone'', JNull), (''isp'', JStr ''Acme''), (''asn'', JNull),
      (''org'', JStr ''Acme'')]"
  by (simp add: normalize_data_def resolved_ip_def version_of_def dict_get_def py_or_def)

theorem normalize_data_first_truthy_witness:
  "\<exists>d. normalize_data [(''latitude'', JInt 0), (''lat'', JInt 5), (''org'', JStr ''Acme''),
                        (''isp'', JStr ''Other'')] = Inr d \<and>
       dict_get d ''latitude'' = JInt 5 \<and> dict_get d ''isp'' = JStr ''Acme'' \<and>
       dict_get d ''region'' = JNull"
proof -
  let ?X = "[(''latitude'', JInt 0), (''lat'', JInt 5), (''org'', JStr ''Acme''),
             (''isp'', JStr ''Other'')]"
  obtain d where d: "normalize_data ?X = Inr d"
    using normalize_data_equator by blast
  note t = normalize_data_first_truthy[OF d]
  have "(''latitude'', [''latitude'', ''lat'']) \<in> set candidate_table"
    and "(''isp'', [''org'', ''isp'']) \<in> set candidate_table"
    and "(''region'', [''region'', ''region_name'']) \<in> set candidate_table"
    by (simp_all add: candidate_table_def)
  with t have "dict_get d ''latitude'' = first_truthy (map (dict_get ?X) [''latitude'', ''lat''])"
    and "dict_get d ''isp'' = first_truthy (map (dict_get ?X) [''org'', ''isp''])"
    and "dict_get d ''region'' = first_truthy (map (dict_get ?X) [''region'', ''region_name''])"
    by blast+
  then have "dict_get d ''latitude'' = JInt 5" and "dict_get d ''isp'' = JStr ''Acme''"
    and "dict_get d ''region'' = JNull"
    by (simp_all add: first_truthy_def dict_get_def)
  with d show ?thesis by blast
qed

text \<open>
  C3 as stated fails on a record with latitude 0 and lat 5: the first candidate that is
  not null is \<open>latitude\<close>, with value 0, and the returned record holds 5.
\<close>

theorem normalize_data_first_non_null_counterexample:
  "normalize_data [(''latitude'', JInt 0), (''lat'', JInt 5)] = Inr
     [(''ip'', JNull), (''version'', JStr ''IPv4''), (''city'', JNull), (''region'', JNull),
      (''country'', JNull), (''country_code'', JNull), (''latitude'', JInt 5),
      (''longitude'', JNull), (''timezone'', JNull), (''isp'', JNull), (''asn'', JNull),
      (''org'', JNull)] \<and>
   first_non_null
     (map (dict_get [(''latitude'', JInt 0), (''lat'', JInt 5)]) [''latitude'', ''lat'']) = JInt 0"
  by (simp add: normalize_data_def resolved_ip_def version_of_def dict_get_def py_or_def
        first_non_null_def)

text \<open>
  C4 (as amended). When the resolved \<open>ip\<close> is not a true boolean or a non-zero number,
  \<open>normalize_data\<close> returns a record, whatever keys are missing, and every field of the
  candidate table whose candidates are all missing is null.
\<close>

theorem normalize_data_missing_keys:
  assumes "\<not> (scalar_number (resolved_ip data) \<and> truthy (resolved_ip data))"
  shows "\<exists>d. normalize_data data = Inr d \<and>
             (\<forall>(f, ks) \<in> set candidate_table.
                (\<forall>k \<in> set ks. missing data k) \<longrightarrow> dict_get d f = JNull)"
proof -
  from assms have "scalar_number (resolved_ip data) \<Longrightarrow> \<not> truthy (resolved_ip data)"
    by blast
  from version_of_safe[OF this] obtain v where "version_of (resolved_ip data) = Inr v"
    by blast
  from normalize_data_Inr[OF this] obtain d where d: "normalize_data data = Inr d" by blast
  have "dict_get d f = JNull"
    if "(f, ks) \<in> set candidate_table" and "\<forall>k \<in> set ks. missing data k" for f ks
  proof -
    from that(2) have "\<forall>v \<in> set (map (dict_get data) ks). v = JNull"
      by (auto simp add: dict_get_missing)
    then have "first_truthy (map (dict_get data) ks) = JNull"
      by (rule first_truthy_all_null)
    with normalized_field[OF d that(1)] show ?thesis by simp
  qed
  with d show ?thesis by auto
qed

theorem normalize_data_missing_keys_witness:
  "\<not> (scalar_number (resolved_ip [(''ip'', JStr ''1.2.3.4''), (''city'', JStr ''X'')]) \<and>
      truthy (resolved_ip [(''ip'', JStr ''1.2.3.4''), (''city'', JStr ''X'')])) \<and>
   (\<exists>d. normalize_data [(''ip'', JStr ''1.2.3.4''), (''city'', JStr ''X'')] = Inr d \<and>
        dict_get d ''region'' = JNull \<and> dict_get d ''longitude'' = JNull \<and>
        dict_get d ''org'' = JNull)"
proof -
  let ?X = "[(''ip'', JStr ''1.2.3.4''), (''city'', JStr ''X'')]"
  have r: "resolved_ip ?X = JStr ''1.2.3.4''"
    by (simp add: resolved_ip_def dict_get_def py_or_def)
  then have h: "\<not> (scalar_number (resolved_ip ?X) \<and> truthy (resolved_ip ?X))" by simp
  from normalize_data_missing_keys[OF h] obtain d
    where d: "normalize_data ?X = Inr d"
      and m: "\<forall>(f, ks) \<in> set candidate_table.
                (\<forall>k \<in> set ks. missing ?X k) \<longrightarrow> dict_get d f = JNull"
    by blast
  have "(''region'', [''region'', ''region_name'']) \<in> set candidate_table"
    and "(''longitude'', [''longitude'', ''lon'', ''lng'']) \<in> set candidate_table"
    and "(''org'', [''org'']) \<in> set candidate_table"
    by (simp_all add: candidate_table_def)
  with m have "(\<forall>k \<in> set [''region'', ''region_name'']. missing ?X k) \<longrightarrow>
        dict_get d ''region'' = JNull"
    and "(\<forall>k \<in> set [''longitude'', ''lon'', ''lng'']. missing ?X k) \<longrightarrow>
        dict_get d ''longitude'' = JNull"
    and "(\<forall>k \<in> set [''org'']. missing ?X k) \<longrightarrow> dict_get d ''org'' = JNull"
    by blast+
  then have "dict_get d ''region'' = JNull" and "dict_get d ''longitude'' = JNull"
    and "dict_get d ''org'' = JNull"
    by (simp_all add: missing_def)
  with d h show ?thesis by blast
qed

text \<open>
  C4 as stated fails on a record whose \<open>ip\<close> is the number 5: the membership test of
  line 69 raises \<open>TypeError\<close>.
\<close>

theorem normalize_data_raises_counterexample:
  "normalize_data [(''ip'', JInt 5)] = Inl TypeError"
  by (simp add: normalize_data_def resolved_ip_def version_of_def dict_get_def py_or_def)

text \<open>
  C9. A manual IP that is not empty becomes the record's \<open>ip\<close>, and \<open>version\<close> is
  computed again from it, whatever the record held; the override \<open>2001:db8::1\<close> gives
  the version \<open>IPv6\<close>.
\<close>

theorem manual_override_sets_ip_and_version:
  assumes "m \<noteq> []"
  shows "dict_get (manual_override (Some m) data) ''ip'' = JStr m \<and>
         dict_get (manual_override (Some m) data) ''version'' =
           JStr (if CHR '':'' \<in> set m then ''IPv6'' else ''IPv4'') \<and>
         dict_get (manual_override (Some ''2001:db8::1'') data) ''version'' = JStr ''IPv6''"
  using assms by (simp add: manual_override_def dict_get_dict_set)

theorem manual_override_sets_ip_and_version_witness:
  "''2001:db8::1'' \<noteq> [] \<and>
   dict_get (manual_override (Some ''2001:db8::1'')
      [(''ip'', JStr ''1.2.3.4''), (''version'', JStr ''IPv4'')]) ''ip'' = JStr ''2001:db8::1'' \<and>
   dict_get (manual_override (Some ''2001:db8::1'')
      [(''ip'', JStr ''1.2.3.4''), (''version'', JStr ''IPv4'')]) ''version'' = JStr ''IPv6''"
  using manual_override_sets_ip_and_version
    [of "''2001:db8::1''" "[(''ip'', JStr ''1.2.3.4''), (''version'', JStr ''IPv4'')]"]
  by simp

text \<open>
  C10. Every record that \<open>normalize_data\<close> returns has the twelve keys of
  \<open>FIELD_LABELS\<close>, each once, in that order, and no other key.
\<close>

theorem normalize_data_keys:
  assumes "normalize_data data = Inr d"
  shows "map fst d = map fst FIELD_LABELS \<and> distinct (map fst d) \<and> length d = 12"
  using assms by (rule normalize_data_returns) (simp add: FIELD_LABELS_def)

theorem normalize_data_keys_witness:
  "\<exists>d. normalize_data [] = Inr d \<and> map fst d = map fst FIELD_LABELS \<and>
       distinct (map fst d) \<and> length d = 12"
  using normalize_data_keys[OF normalize_data_empty] normalize_data_empty by blast


section \<open>Properties of the history writer\<close>









section \<open>Properties of the scheduler loop\<close>

declare main_loop.simps [simp del]

text \<open>The four ways through one iteration of the \<open>while\<close> loop.\<close>

lemma main_loop_stop:
  "\<not> n < count a \<Longrightarrow> main_loop a env n st = (Done, n, st)"
  by (subst main_loop.simps) simp

lemma main_loop_break:
  "n < count a \<Longrightarrow> snd (try_except a env n st) \<Longrightarrow>
   main_loop a env n st = (Aborted, n, fst (try_except a env n st))"
  by (subst main_loop.simps) (simp add: Let_def)

lemma main_loop_last:
  "n < count a \<Longrightarrow> \<not> snd (try_except a env n st) \<Longrightarrow> count a \<le> n + 1 \<Longrightarrow>
   main_loop a env n st = (Done, n + 1, fst (try_except a env n st))"
  by (subst main_loop.simps) (simp add: Let_def)

lemma main_loop_next:
  "n < count a \<Longrightarrow> \<not> snd (try_except a env n st) \<Longrightarrow> \<not> count a \<le> n + 1 \<Longrightarrow>
   main_loop a env n st =
     main_loop a env (n + 1)
       (emit (Sleep (if 0 < interval a then interval a else 1)) (fst (try_except a env n st)))"
  by (subst main_loop.simps) (simp add: Let_def)

text \<open>Every pass through the \<open>try\<close> statement calls the data source exactly once.\<close>

lemma fetches_emit:
  "fetches (emit x st) = (if is_fetch x then Suc (fetches st) else fetches st)"
  by (simp add: fetches_def emit_def)

lemma fetches_emit_lines: "fetches (emit_lines ls st) = fetches st"
  by (simp add: fetches_def emit_lines_def filter_empty_conv[THEN iffD2])

lemma fetches_disk_update: "fetches (st\<lparr>disk := fs\<rparr>) = fetches st"
  by (simp add: fetches_def)

lemma data_source_is_fetch: "is_fetch (fst (data_source a env n))"
  by (simp add: data_source_def split: option.splits)

lemma try_body_fetches: "fetches (fst (try_body a env n st)) = Suc (fetches st)"
  by (simp add: try_body_def Let_def fetches_emit fetches_emit_lines fetches_disk_update
        data_source_is_fetch split: option.splits sum.splits)

lemma try_except_fetches: "fetches (fst (try_except a env n st)) = Suc (fetches st)"
proof (cases "try_body a env n st")
  case (Pair st' r)
  with try_body_fetches[of a env n st] have "fetches st' = Suc (fetches st)" by simp
  with Pair show ?thesis by (cases r) (simp_all add: try_except_def fetches_emit)
qed

text \<open>The loop never calls the data source more often than runs remain.\<close>

lemma main_loop_fetches_le:
  "fetches (snd (snd (main_loop a env n st))) \<le> fetches st + nat (count a - n)"
proof (induction a env n st rule: main_loop.induct)
  case (1 a env n st)
  show ?case
  proof (cases "n < count a")
    case False
    then show ?thesis by (simp add: main_loop_stop)
  next
    case True
    note lt = this
    show ?thesis
    proof (cases "snd (try_except a env n st)")
      case True
      with lt show ?thesis by (simp add: main_loop_break try_except_fetches)
    next
      case nb: False
      show ?thesis
      proof (cases "count a \<le> n + 1")
        case True
        with lt nb show ?thesis by (simp add: main_loop_last try_except_fetches)
      next
        case False
        from "1.IH"[OF lt refl nb False]
        have "fetches (snd (snd (main_loop a env (n + 1)
                 (emit (Sleep (if 0 < interval a then interval a else 1))
                    (fst (try_except a env n st))))))
              \<le> Suc (fetches st) + nat (count a - (n + 1))"
          by (simp add: fetches_emit try_except_fetches)
        moreover from lt have "Suc (nat (count a - (n + 1))) = nat (count a - n)" by simp
        ultimately show ?thesis using lt nb False by (simp add: main_loop_next)
      qed
    qed
  qed
qed

lemma main_loop_fetches_ge:
  "n < count a \<Longrightarrow> Suc (fetches st) \<le> fetches (snd (snd (main_loop a env n st)))"
proof (induction a env n st rule: main_loop.induct)
  case (1 a env n st)
  note lt = "1.prems"
  show ?case
  proof (cases "snd (try_except a env n st)")
    case True
    with lt show ?thesis by (simp add: main_loop_break try_except_fetches)
  next
    case nb: False
    show ?thesis
    proof (cases "count a \<le> n + 1")
      case True
      with lt nb show ?thesis by (simp add: main_loop_last try_except_fetches)
    next
      case False
      then have "n + 1 < count a" by simp
      from "1.IH"[OF lt refl nb False this]
      have "Suc (Suc (fetches st)) \<le> fetches (snd (snd (main_loop a env (n + 1)
                 (emit (Sleep (if 0 < interval a then interval a else 1))
                    (fst (try_except a env n st))))))"
        by (simp add: fetches_emit try_except_fetches)
      with lt nb False show ?thesis by (simp add: main_loop_next)
    qed
  qed
qed

text \<open>The pass of a cycle whose mock file is missing or is not JSON.\<close>

lemma try_except_mock_missing:
  assumes "mock a = Some path" and "path \<noteq> []" and "mock_read env path (nat n) = MockMissing"
  shows "try_except a env n st =
           (emit (Print (MockFileNotFound FileNotFoundError))
              (emit (LoadMock path)
                 (if no_print_time a then st
                  else emit (Print (RunningCheck (n + 1) (count a))) st)),
            True)"
  using assms
  by (simp add: try_except_def try_body_def data_source_def given_def load_mock_def
        except_clauses_def is_RequestException_def is_FileNotFoundError_def Let_def)

lemma try_except_mock_invalid:
  assumes "mock a = Some path" and "path \<noteq> []" and "mock_read env path (nat n) = MockInvalid"
  shows "try_except a env n st =
           (emit (Print (InvalidJson JSONDecodeError))
              (emit (LoadMock path)
                 (if no_print_time a then st
                  else emit (Print (RunningCheck (n + 1) (count a))) st)),
            True)"
  using assms
  by (simp add: try_except_def try_body_def data_source_def given_def load_mock_def
        except_clauses_def is_RequestException_def is_FileNotFoundError_def
        is_JSONDecodeError_def Let_def)

lemma disk_emit: "disk (emit x st) = disk st"
  by (simp add: emit_def)

lemma presented_emit:
  "presented (emit x st) = (if x = Print InfoHeader then Suc (presented st) else presented st)"
  by (simp add: presented_def emit_def)

text \<open>
  The pass of a cycle whose mock file cannot be read for another reason: the exception
  reaches the last clause, which prints and does not break.
\<close>

lemma try_except_mock_unexpected:
  assumes "mock a = Some path" and "path \<noteq> []"
    and "load_mock (mock_read env path (nat n)) = Inl e"
    and "\<not> is_RequestException e" and "\<not> is_FileNotFoundError e"
    and "\<not> is_JSONDecodeError e"
  shows "try_except a env n st =
           (emit (Print (UnexpectedError e))
              (emit (LoadMock path)
                 (if no_print_time a then st
                  else emit (Print (RunningCheck (n + 1) (count a))) st)),
            False)"
  using assms
  by (simp add: try_except_def try_body_def data_source_def given_def except_clauses_def
        Let_def)

lemma main_loop_three_unexpected:
  assumes "count a = 3" and "mock a = Some path" and "path \<noteq> []" and "no_print_time a"
    and "\<And>n. load_mock (mock_read env path n) = Inl e"
    and "\<not> is_RequestException e" and "\<not> is_FileNotFoundError e"
    and "\<not> is_JSONDecodeError e"
  shows "main_loop a env 0 st =
           (Done, 3,
            st\<lparr>actions := actions st @
               [LoadMock path, Print (UnexpectedError e),
                Sleep (if 0 < interval a then interval a else 1),
                LoadMock path, Print (UnexpectedError e),
                Sleep (if 0 < interval a then interval a else 1),
                LoadMock path, Print (UnexpectedError e)]\<rparr>)"
proof -
  have te: "try_except a env n st' =
              (st'\<lparr>actions := actions st' @ [LoadMock path, Print (UnexpectedError e)]\<rparr>, False)"
    for n st'
    using try_except_mock_unexpected[OF assms(2,3) assms(5)[of "nat n"] assms(6-8), of st']
      assms(4)
    by (simp add: emit_def)
  have "main_loop a env 0 st =
          main_loop a env 1
            (st\<lparr>actions := actions st @
               [LoadMock path, Print (UnexpectedError e),
                Sleep (if 0 < interval a then interval a else 1)]\<rparr>)"
    using main_loop_next[of 0 a env st] assms(1) by (simp add: te emit_def)
  also have "\<dots> =
          main_loop a env 2
            (st\<lparr>actions := actions st @
               [LoadMock path, Print (UnexpectedError e),
                Sleep (if 0 < interval a then interval a else 1),
                LoadMock path, Print (UnexpectedError e),
                Sleep (if 0 < interval a then interval a else 1)]\<rparr>)"
    using main_loop_next[of 1 a env] assms(1) by (simp add: te emit_def)
  also have "\<dots> =
          (Done, 3,
            st\<lparr>actions := actions st @
               [LoadMock path, Print (UnexpectedError e),
                Sleep (if 0 < interval a then interval a else 1),
                LoadMock path, Print (UnexpectedError e),
                Sleep (if 0 < interval a then interval a else 1),
                LoadMock path, Print (UnexpectedError e)]\<rparr>)"
    using main_loop_last[of 2 a env] assms(1) by (simp add: te)
  finally show ?thesis .
qed

text \<open>
  C7 (as amended). With a mock path set and, at the first read, nothing at the mock
  path (\<open>open\<close> raises \<open>FileNotFoundError\<close>) or a text that is not JSON (\<open>json.load\<close>
  raises \<open>json.JSONDecodeError\<close>), the loop calls the data source at most once whatever
  the configured count; when at least one run is configured it calls it exactly once,
  presents and writes nothing, and is left in \<open>Aborted\<close>.
\<close>

theorem main_loop_mock_failure_aborts:
  assumes "mock a = Some path" and "path \<noteq> []"
    and "mock_read env path 0 = MockMissing \<or> mock_read env path 0 = MockInvalid"
  shows "fetches (snd (snd (main_loop a env 0 st))) \<le> fetches st + 1 \<and>
         (1 \<le> count a \<longrightarrow>
            fst (main_loop a env 0 st) = Aborted \<and>
            fetches (snd (snd (main_loop a env 0 st))) = fetches st + 1 \<and>
            presented (snd (snd (main_loop a env 0 st))) = presented st \<and>
            disk (snd (snd (main_loop a env 0 st))) = disk st)"
proof (cases "1 \<le> count a")
  case False
  then show ?thesis by (simp add: main_loop_stop)
next
  case True
  then have lt: "0 < count a" by simp
  from assms(3) show ?thesis
  proof
    assume m: "mock_read env path 0 = MockMissing"
    then have "mock_read env path (nat 0) = MockMissing" by simp
    note te = try_except_mock_missing[OF assms(1,2) this, of st]
    from te have "snd (try_except a env 0 st)" by simp
    from main_loop_break[OF lt this] te lt show ?thesis
      by (simp add: fetches_emit presented_emit disk_emit)
  next
    assume m: "mock_read env path 0 = MockInvalid"
    then have "mock_read env path (nat 0) = MockInvalid" by simp
    note te = try_except_mock_invalid[OF assms(1,2) this, of st]
    from te have "snd (try_except a env 0 st)" by simp
    from main_loop_break[OF lt this] te lt show ?thesis
      by (simp add: fetches_emit presented_emit disk_emit)
  qed
qed

theorem main_loop_mock_failure_aborts_witness:
  "fst (main_loop
     \<lparr>mock = Some ''missing.json'', manual_ip = None, selected = [''ip'', ''version''],
      interval = 0, count = 5, save_history = None, api_url = ''https://ipapi.co/json/'',
      timeout = 10, no_print_time = False\<rparr>
     \<lparr>mock_read = (\<lambda>p n. MockMissing), http_get = (\<lambda>u t n. TransportFailure),
      utcnow_iso = (\<lambda>n. ''2026-01-01T10:00:00'')\<rparr>
     0
     \<lparr>disk = \<lparr>nodes = (\<lambda>p. None), parent_exists = (\<lambda>p. True)\<rparr>, actions = []\<rparr>) = Aborted \<and>
   fetches (snd (snd (main_loop
     \<lparr>mock = Some ''missing.json'', manual_ip = None, selected = [''ip'', ''version''],
      interval = 0, count = 5, save_history = None, api_url = ''https://ipapi.co/json/'',
      timeout = 10, no_print_time = False\<rparr>
     \<lparr>mock_read = (\<lambda>p n. MockMissing), http_get = (\<lambda>u t n. TransportFailure),
      utcnow_iso = (\<lambda>n. ''2026-01-01T10:00:00'')\<rparr>
     0
     \<lparr>disk = \<lparr>nodes = (\<lambda>p. None), parent_exists = (\<lambda>p. True)\<rparr>, actions = []\<rparr>))) = 1"
proof -
  let ?a = "\<lparr>mock = Some ''missing.json'', manual_ip = None, selected = [''ip'', ''version''],
      interval = 0, count = 5, save_history = None, api_url = ''https://ipapi.co/json/'',
      timeout = 10, no_print_time = False\<rparr>"
  let ?env = "\<lparr>mock_read = (\<lambda>p n. MockMissing), http_get = (\<lambda>u t n. TransportFailure),
      utcnow_iso = (\<lambda>n. ''2026-01-01T10:00:00'')\<rparr>"
  let ?st = "\<lparr>disk = \<lparr>nodes = (\<lambda>p. None), parent_exists = (\<lambda>p. True)\<rparr>, actions = []\<rparr>"
  have h1: "mock ?a = Some ''missing.json''" and h2: "''missing.json'' \<noteq> []"
    and h3: "mock_read ?env ''missing.json'' 0 = MockMissing \<or>
             mock_read ?env ''missing.json'' 0 = MockInvalid"
    by simp_all
  from main_loop_mock_failure_aborts[OF h1 h2 h3, of ?st]
  show ?thesis by (simp add: fetches_def)
qed

text \<open>
  C7 as stated fails when the mock file is missing or invalid in a way that raises
  another exception. Three runs are configured. With a mock file whose bytes are not
  UTF-8, hence not JSON, \<open>json.load\<close> raises \<open>UnicodeDecodeError\<close>; with a mock path
  under a regular file, where no mock file exists, \<open>open\<close> raises
  \<open>NotADirectoryError\<close>. Both reach the last clause: the data source is called three
  times and the loop is left in \<open>Done\<close>.
\<close>

theorem main_loop_mock_unexpected_counterexample:
  "main_loop
     \<lparr>mock = Some ''mock.json'', manual_ip = None, selected = [''ip''],
      interval = 0, count = 3, save_history = None,
      api_url = ''https://ipapi.co/json/'', timeout = 10, no_print_time = True\<rparr>
     \<lparr>mock_read = (\<lambda>p n. MockNotUTF8), http_get = (\<lambda>u t n. TransportFailure),
      utcnow_iso = (\<lambda>n. ''2026-01-01T10:00:00'')\<rparr>
     0
     \<lparr>disk = \<lparr>nodes = (\<lambda>p. None), parent_exists = (\<lambda>p. True)\<rparr>, actions = []\<rparr> =
   (Done, 3,
    \<lparr>disk = \<lparr>nodes = (\<lambda>p. None), parent_exists = (\<lambda>p. True)\<rparr>,
     actions = [LoadMock ''mock.json'', Print (UnexpectedError UnicodeDecodeError), Sleep 1,
                LoadMock ''mock.json'', Print (UnexpectedError UnicodeDecodeError), Sleep 1,
                LoadMock ''mock.json'', Print (UnexpectedError UnicodeDecodeError)]\<rparr>) \<and>
   main_loop
     \<lparr>mock = Some ''notes.txt/mock.json'', manual_ip = None, selected = [''ip''],
      interval = 0, count = 3, save_history = None,
      api_url = ''https://ipapi.co/json/'', timeout = 10, no_print_time = True\<rparr>
     \<lparr>mock_read = (\<lambda>p n. MockUnderFile), http_get = (\<lambda>u t n. TransportFailure),
      utcnow_iso = (\<lambda>n. ''2026-01-01T10:00:00'')\<rparr>
     0
     \<lparr>disk = \<lparr>nodes = (\<lambda>p. None), parent_exists = (\<lambda>p. True)\<rparr>, actions = []\<rparr> =
   (Done, 3,
    \<lparr>disk = \<lparr>nodes = (\<lambda>p. None), parent_exists = (\<lambda>p. True)\<rparr>,
     actions = [LoadMock ''notes.txt/mock.json'', Print (UnexpectedError NotADirectoryError),
                Sleep 1,
                LoadMock ''notes.txt/mock.json'', Print (UnexpectedError NotADirectoryError),
                Sleep 1,
                LoadMock ''notes.txt/mock.json'', Print (UnexpectedError NotADirectoryError)]\<rparr>)"
proof -
  have u: "main_loop
     \<lparr>mock = Some ''mock.json'', manual_ip = None, selected = [''ip''],
      interval = 0, count = 3, save_history = None,
      api_url = ''https://ipapi.co/json/'', timeout = 10, no_print_time = True\<rparr>
     \<lparr>mock_read = (\<lambda>p n. MockNotUTF8), http_get = (\<lambda>u t n. TransportFailure),
      utcnow_iso = (\<lambda>n. ''2026-01-01T10:00:00'')\<rparr>
     0
     \<lparr>disk = \<lparr>nodes = (\<lambda>p. None), parent_exists = (\<lambda>p. True)\<rparr>, actions = []\<rparr> =
   (Done, 3,
    \<lparr>disk = \<lparr>nodes = (\<lambda>p. None), parent_exists = (\<lambda>p. True)\<rparr>,
     actions = [LoadMock ''mock.json'', Print (UnexpectedError UnicodeDecodeError), Sleep 1,
                LoadMock ''mock.json'', Print (UnexpectedError UnicodeDecodeError), Sleep 1,
                LoadMock ''mock.json'', Print (UnexpectedError UnicodeDecodeError)]\<rparr>)"
    by (subst main_loop_three_unexpected[where path = "''mock.json''" and e = UnicodeDecodeError])
       (simp_all add: load_mock_def is_RequestException_def is_FileNotFoundError_def
          is_JSONDecodeError_def)
  have d: "main_loop
     \<lparr>mock = Some ''notes.txt/mock.json'', manual_ip = None, selected = [''ip''],
      interval = 0, count = 3, save_history = None,
      api_url = ''https://ipapi.co/json/'', timeout = 10, no_print_time = True\<rparr>
     \<lparr>mock_read = (\<lambda>p n. MockUnderFile), http_get = (\<lambda>u t n. TransportFailure),
      utcnow_iso = (\<lambda>n. ''2026-01-01T10:00:00'')\<rparr>
     0
     \<lparr>disk = \<lparr>nodes = (\<lambda>p. None), parent_exists = (\<lambda>p. True)\<rparr>, actions = []\<rparr> =
   (Done, 3,
    \<lparr>disk = \<lparr>nodes = (\<lambda>p. None), parent_exists = (\<lambda>p. True)\<rparr>,
     actions = [LoadMock ''notes.txt/mock.json'', Print (UnexpectedError NotADirectoryError),
                Sleep 1,
                LoadMock ''notes.txt/mock.json'', Print (UnexpectedError NotADirectoryError),
                Sleep 1,
                LoadMock ''notes.txt/mock.json'', Print (UnexpectedError NotADirectoryError)]\<rparr>)"
    by (subst main_loop_three_unexpected
          [where path = "''notes.txt/mock.json''" and e = NotADirectoryError])
       (simp_all add: load_mock_def is_RequestException_def is_FileNotFoundError_def
          is_JSONDecodeError_def)
  from u d show ?thesis by (rule conjI)
qed

text \<open>The pass of a live cycle whose response body is not JSON.\<close>

lemma try_except_live_invalid:
  assumes "\<not> given (mock a)"
    and "http_get env (api_url a) (timeout a) (nat n) = InvalidBody"
  shows "try_except a env n st =
           (emit (Print (NetworkApiError RequestsJSONDecodeError))
              (emit (FetchLive (api_url a) (timeout a))
                 (if no_print_time a then st
                  else emit (Print (RunningCheck (n + 1) (count a))) st)),
            False)"
  using assms
  by (simp add: try_except_def try_body_def data_source_def fetch_live_def
        except_clauses_def is_RequestException_def Let_def)

text \<open>
  C8. In live mode a cycle whose response body is not JSON prints the network error
  line, presents and writes nothing, and does not leave the loop: when it was the last
  configured run the loop is left in \<open>Done\<close>, otherwise the loop sleeps and goes on with
  the next run, whose call of the data source is made.
\<close>

theorem main_loop_live_invalid_json_continues:
  assumes "\<not> given (mock a)"
    and "http_get env (api_url a) (timeout a) (nat n) = InvalidBody"
    and "n < count a"
  shows "try_except a env n st =
           (emit (Print (NetworkApiError RequestsJSONDecodeError))
              (emit (FetchLive (api_url a) (timeout a))
                 (if no_print_time a then st
                  else emit (Print (RunningCheck (n + 1) (count a))) st)),
            False) \<and>
         presented (fst (try_except a env n st)) = presented st \<and>
         disk (fst (try_except a env n st)) = disk st \<and>
         (count a \<le> n + 1 \<longrightarrow>
            main_loop a env n st = (Done, n + 1, fst (try_except a env n st))) \<and>
         (n + 1 < count a \<longrightarrow>
            main_loop a env n st =
              main_loop a env (n + 1)
                (emit (Sleep (if 0 < interval a then interval a else 1))
                   (fst (try_except a env n st))) \<and>
            fetches st + 2 \<le> fetches (snd (snd (main_loop a env n st))))"
proof -
  note te = try_except_live_invalid[OF assms(1,2), of st]
  then have nb: "\<not> snd (try_except a env n st)" by simp
  have p: "presented (fst (try_except a env n st)) = presented st"
    and d: "disk (fst (try_except a env n st)) = disk st"
    unfolding te by (simp_all add: presented_emit disk_emit)
  have l: "main_loop a env n st = (Done, n + 1, fst (try_except a env n st))"
    if "count a \<le> n + 1"
    using main_loop_last[OF assms(3) nb that] .
  have c: "main_loop a env n st =
              main_loop a env (n + 1)
                (emit (Sleep (if 0 < interval a then interval a else 1))
                   (fst (try_except a env n st))) \<and>
           fetches st + 2 \<le> fetches (snd (snd (main_loop a env n st)))"
    if "n + 1 < count a"
  proof -
    from that have "\<not> count a \<le> n + 1" by simp
    note nx = main_loop_next[OF assms(3) nb this]
    from main_loop_fetches_ge[OF that, of
        "emit (Sleep (if 0 < interval a then interval a else 1)) (fst (try_except a env n st))" env]
    have "fetches st + 2 \<le> fetches (snd (snd (main_loop a env (n + 1)
            (emit (Sleep (if 0 < interval a then interval a else 1))
               (fst (try_except a env n st))))))"
      by (simp add: fetches_emit try_except_fetches)
    with nx show ?thesis by simp
  qed
  from te p d l c show ?thesis by blast
qed

theorem main_loop_live_invalid_json_continues_witness:
  "\<not> given (mock
     \<lparr>mock = None, manual_ip = None, selected = [''ip'', ''version''],
      interval = 0, count = 2, save_history = None, api_url = ''https://ipapi.co/json/'',
      timeout = 10, no_print_time = True\<rparr>) \<and>
   \<not> snd (try_except
     \<lparr>mock = None, manual_ip = None, selected = [''ip'', ''version''],
      interval = 0, count = 2, save_history = None, api_url = ''https://ipapi.co/json/'',
      timeout = 10, no_print_time = True\<rparr>
     \<lparr>mock_read = (\<lambda>p n. MockMissing), http_get = (\<lambda>u t n. InvalidBody),
      utcnow_iso = (\<lambda>n. ''2026-01-01T10:00:00'')\<rparr>
     0
     \<lparr>disk = \<lparr>nodes = (\<lambda>p. None), parent_exists = (\<lambda>p. True)\<rparr>, actions = []\<rparr>) \<and>
   2 \<le> fetches (snd (snd (main_loop
     \<lparr>mock = None, manual_ip = None, selected = [''ip'', ''version''],
      interval = 0, count = 2, save_history = None, api_url = ''https://ipapi.co/json/'',
      timeout = 10, no_print_time = True\<rparr>
     \<lparr>mock_read = (\<lambda>p n. MockMissing), http_get = (\<lambda>u t n. InvalidBody),
      utcnow_iso = (\<lambda>n. ''2026-01-01T10:00:00'')\<rparr>
     0
     \<lparr>disk = \<lparr>nodes = (\<lambda>p. None), parent_exists = (\<lambda>p. True)\<rparr>, actions = []\<rparr>)))"
proof -
  let ?a = "\<lparr>mock = None, manual_ip = None, selected = [''ip'', ''version''],
      interval = 0, count = 2, save_history = None, api_url = ''https://ipapi.co/json/'',
      timeout = 10, no_print_time = True\<rparr>"
  let ?env = "\<lparr>mock_read = (\<lambda>p n. MockMissing), http_get = (\<lambda>u t n. InvalidBody),
      utcnow_iso = (\<lambda>n. ''2026-01-01T10:00:00'')\<rparr>"
  let ?st = "\<lparr>disk = \<lparr>nodes = (\<lambda>p. None), parent_exists = (\<lambda>p. True)\<rparr>, actions = []\<rparr>"
  have h1: "\<not> given (mock ?a)" by (simp add: given_def)
  have h2: "http_get ?env (api_url ?a) (timeout ?a) (nat 0) = InvalidBody" by simp
  have h3: "0 < count ?a" by simp
  have lt: "0 + 1 < count ?a" by simp
  have f0: "fetches ?st = 0" by (simp add: fetches_def)
  note t = main_loop_live_invalid_json_continues[OF h1 h2 h3, of ?st]
  from t[THEN conjunct1] have nb: "\<not> snd (try_except ?a ?env 0 ?st)" by simp
  from t[THEN conjunct2, THEN conjunct2, THEN conjunct2, THEN conjunct2, THEN mp, OF lt,
         THEN conjunct2] f0
  have "2 \<le> fetches (snd (snd (main_loop ?a ?env 0 ?st)))" by simp
  with h1 nb show ?thesis by blast
qed

text \<open>
  C6, at an input on which the code leaves the claim. Three runs are configured, no
  interval, the mock file holds a record at every read, and the history path lies in a
  directory that does not exist. \<open>open\<close> raises \<open>FileNotFoundError\<close> in
  \<open>append_history_csv\<close>; the clause written for the mock file catches it, prints its
  line and breaks: one call of the data source, and the loop is left in \<open>Aborted\<close>.
\<close>

theorem main_loop_history_dir_missing_aborts:
  "main_loop
     \<lparr>mock = Some ''mock.json'', manual_ip = None, selected = [''ip''],
      interval = 0, count = 3, save_history = Some ''logs/history.csv'',
      api_url = ''https://ipapi.co/json/'', timeout = 10, no_print_time = True\<rparr>
     \<lparr>mock_read = (\<lambda>p n. MockJSON (JObj [(''ip'', JStr ''1.2.3.4'')])),
      http_get = (\<lambda>u t n. TransportFailure),
      utcnow_iso = (\<lambda>n. ''2026-01-01T10:00:00'')\<rparr>
     0
     \<lparr>disk = \<lparr>nodes = (\<lambda>p. None), parent_exists = (\<lambda>p. False)\<rparr>, actions = []\<rparr> =
   (Aborted, 0,
    \<lparr>disk = \<lparr>nodes = (\<lambda>p. None), parent_exists = (\<lambda>p. False)\<rparr>,
     actions = [LoadMock ''mock.json'',
                Print InfoHeader,
                Print (InfoLine ''Public IP Address'' (Some (JStr ''1.2.3.4''))),
                Print InfoFooter,
                Print (MockFileNotFound FileNotFoundError)]\<rparr>)"
proof -
  let ?a = "\<lparr>mock = Some ''mock.json'', manual_ip = None, selected = [''ip''],
      interval = 0, count = 3, save_history = Some ''logs/history.csv'',
      api_url = ''https://ipapi.co/json/'', timeout = 10, no_print_time = True\<rparr>"
  let ?env = "\<lparr>mock_read = (\<lambda>p n. MockJSON (JObj [(''ip'', JStr ''1.2.3.4'')])),
      http_get = (\<lambda>u t n. TransportFailure),
      utcnow_iso = (\<lambda>n. ''2026-01-01T10:00:00'')\<rparr>"
  let ?st = "\<lparr>disk = \<lparr>nodes = (\<lambda>p. None), parent_exists = (\<lambda>p. False)\<rparr>, actions = []\<rparr>"
  have n: "normalize_data [(''ip'', JStr ''1.2.3.4'')] = Inr
     [(''ip'', JStr ''1.2.3.4''), (''version'', JStr ''IPv4''), (''city'', JNull),
      (''region'', JNull), (''country'', JNull), (''country_code'', JNull),
      (''latitude'', JNull), (''longitude'', JNull), (''timezone'', JNull), (''isp'', JNull),
      (''asn'', JNull), (''org'', JNull)]"
    by (simp add: normalize_data_def resolved_ip_def version_of_def dict_get_def py_or_def)
  have ap: "append_history_csv \<lparr>nodes = (\<lambda>p. None), parent_exists = (\<lambda>p. False)\<rparr> t
              ''logs/history.csv'' flds d = Inl FileNotFoundError" for t flds d
    by (simp add: append_history_csv_def open_append_def Let_def)
  have te: "try_except ?a ?env 0 ?st =
     (\<lparr>disk = \<lparr>nodes = (\<lambda>p. None), parent_exists = (\<lambda>p. False)\<rparr>,
       actions = [LoadMock ''mock.json'',
                Print InfoHeader,
                Print (InfoLine ''Public IP Address'' (Some (JStr ''1.2.3.4''))),
                Print InfoFooter,
                Print (MockFileNotFound FileNotFoundError)]\<rparr>, True)"
    by (simp add: try_except_def try_body_def data_source_def given_def load_mock_def n ap
          manual_override_def print_selected_def FIELD_LABELS_def dict_get_def
          except_clauses_def is_RequestException_def is_FileNotFoundError_def
          emit_def emit_lines_def Let_def)
  have lt: "0 < count ?a" by simp
  from te have "snd (try_except ?a ?env 0 ?st)" by simp
  from main_loop_break[OF lt this] te show ?thesis by simp
qed


subsection \<open>Runs that no pass leaves by break\<close>

text \<open>
  When every call of the data source returns a value and the directory of the history
  path exists, no pass leaves the loop by \<open>break\<close>: the loop makes exactly the
  configured number of calls and is left in \<open>Done\<close>. A record that
  \<open>normalize_data\<close> rejects and a history path that is a directory only skip the
  rest of their cycle.
\<close>

lemma append_history_csv_parent_exists:
  "append_history_csv fs t p flds d = Inr fs' \<Longrightarrow> parent_exists fs' = parent_exists fs"
  by (auto simp add: append_history_csv_def open_append_def write_row_def Let_def
        split: option.splits fs_node.splits if_splits)

lemma append_history_csv_raises:
  "append_history_csv fs t p flds d = Inl e \<Longrightarrow>
   (e = FileNotFoundError \<and> \<not> parent_exists fs p) \<or> e = IsADirectoryError"
  by (auto simp add: append_history_csv_def open_append_def Let_def
        split: option.splits fs_node.splits if_splits)

lemma except_clauses_no_break:
  "e = TypeError \<or> e = AttributeError \<or> e = IsADirectoryError \<Longrightarrow> \<not> snd (except_clauses e)"
  by (auto simp add: except_clauses_def is_RequestException_def is_FileNotFoundError_def
        is_JSONDecodeError_def)

lemma normalize_data_raises_TypeError: "normalize_data kvs = Inl e \<Longrightarrow> e = TypeError"
  by (cases "resolved_ip kvs")
     (auto simp add: normalize_data_def version_of_def Let_def split: if_splits sum.splits)

lemma history_dir_exists_disk:
  "disk st' = disk st \<Longrightarrow> history_dir_exists a st' = history_dir_exists a st"
  by (simp add: history_dir_exists_def split: option.splits)

lemma history_dir_exists_emit: "history_dir_exists a (emit x st) = history_dir_exists a st"
  by (rule history_dir_exists_disk) (simp add: emit_def)

lemma try_body_source_ok:
  assumes "source_succeeds a env n" and "history_dir_exists a st"
  shows "(case snd (try_body a env n st) of
            None \<Rightarrow> True
          | Some e \<Rightarrow> e = TypeError \<or> e = AttributeError \<or> e = IsADirectoryError) \<and>
         history_dir_exists a (fst (try_body a env n st))"
proof -
  from assms(1) obtain j where j: "snd (data_source a env n) = Inr j"
    by (auto simp add: source_succeeds_def split: sum.splits)
  define st1 where "st1 = emit (fst (data_source a env n))
       (if \<not> no_print_time a then emit (Print (RunningCheck (n + 1) (count a))) st else st)"
  have d1: "disk st1 = disk st" by (simp add: st1_def emit_def)
  show ?thesis
  proof (cases "case j of JObj kvs \<Rightarrow> normalize_data kvs | _ \<Rightarrow> Inl AttributeError")
    case (Inl e)
    then have "e = TypeError \<or> e = AttributeError"
      by (cases j) (auto dest: normalize_data_raises_TypeError)
    moreover from Inl j have "try_body a env n st = (st1, Some e)"
      by (simp add: try_body_def st1_def Let_def)
    ultimately show ?thesis using assms(2) history_dir_exists_disk[OF d1, of a] by auto
  next
    case (Inr data)
    define st2 where
      "st2 = emit_lines (print_selected (manual_override (manual_ip a) data) (selected a)) st1"
    have d2: "disk st2 = disk st" by (simp add: st2_def emit_lines_def d1)
    show ?thesis
    proof (cases "given (save_history a)")
      case False
      with Inr j have "try_body a env n st = (st2, None)"
        by (simp add: try_body_def st1_def st2_def Let_def)
      with assms(2) history_dir_exists_disk[OF d2, of a] show ?thesis by simp
    next
      case True
      then obtain hist where h: "save_history a = Some hist"
        by (auto simp add: given_def split: option.splits)
      with assms(2) d2 have pe: "parent_exists (disk st2) hist"
        by (simp add: history_dir_exists_def)
      show ?thesis
      proof (cases "append_history_csv (disk st2) (utcnow_iso env (nat n)) hist (selected a)
                      (manual_override (manual_ip a) data)")
        case (Inl e)
        from append_history_csv_raises[OF Inl] pe have "e = IsADirectoryError" by simp
        moreover from Inl Inr j True h have "try_body a env n st = (st2, Some e)"
          by (simp add: try_body_def st1_def st2_def Let_def)
        ultimately show ?thesis using assms(2) history_dir_exists_disk[OF d2, of a] by simp
      next
        case (Inr fs)
        from append_history_csv_parent_exists[OF Inr] pe have "parent_exists fs hist" by simp
        moreover from Inr \<open>(case j of JObj kvs \<Rightarrow> normalize_data kvs | _ \<Rightarrow> Inl AttributeError) = Inr data\<close>
          j True h
        have "try_body a env n st = (emit (Print (AppendedToHistory hist)) (st2\<lparr>disk := fs\<rparr>), None)"
          by (simp add: try_body_def st1_def st2_def Let_def)
        ultimately show ?thesis using h by (simp add: history_dir_exists_def emit_def)
      qed
    qed
  qed
qed

lemma try_except_source_ok:
  assumes "source_succeeds a env n" and "history_dir_exists a st"
  shows "\<not> snd (try_except a env n st) \<and> history_dir_exists a (fst (try_except a env n st))"
proof (cases "try_body a env n st")
  case (Pair st' r)
  with try_body_source_ok[OF assms]
  have r: "case r of None \<Rightarrow> True
           | Some e \<Rightarrow> e = TypeError \<or> e = AttributeError \<or> e = IsADirectoryError"
    and h: "history_dir_exists a st'"
    by simp_all
  show ?thesis
  proof (cases r)
    case None
    with Pair h show ?thesis by (simp add: try_except_def)
  next
    case (Some e)
    with r have "\<not> snd (except_clauses e)" by (simp add: except_clauses_no_break)
    with Pair Some h show ?thesis
      by (simp add: try_except_def history_dir_exists_emit)
  qed
qed

lemma main_loop_completes:
  assumes "\<And>m. n \<le> m \<Longrightarrow> m < count a \<Longrightarrow> source_succeeds a env m"
    and "history_dir_exists a st"
  shows "fst (main_loop a env n st) = Done \<and>
         fst (snd (main_loop a env n st)) = max n (count a) \<and>
         fetches (snd (snd (main_loop a env n st))) = fetches st + nat (count a - n)"
  using assms
proof (induction a env n st rule: main_loop.induct)
  case (1 a env n st)
  show ?case
  proof (cases "n < count a")
    case False
    then show ?thesis by (simp add: main_loop_stop)
  next
    case True
    note lt = this
    from "1.prems"(1)[of n] lt have "source_succeeds a env n" by simp
    from try_except_source_ok[OF this "1.prems"(2)]
    have nb: "\<not> snd (try_except a env n st)"
      and h: "history_dir_exists a (fst (try_except a env n st))"
      by simp_all
    show ?thesis
    proof (cases "count a \<le> n + 1")
      case True
      with lt nb show ?thesis by (simp add: main_loop_last try_except_fetches)
    next
      case False
      have s: "\<And>m. n + 1 \<le> m \<Longrightarrow> m < count a \<Longrightarrow> source_succeeds a env m"
        using "1.prems"(1) by simp
      from h have h': "history_dir_exists a
          (emit (Sleep (if 0 < interval a then interval a else 1)) (fst (try_except a env n st)))"
        by (simp add: history_dir_exists_emit)
      from "1.IH"[OF lt refl nb False s h']
      have "fst (main_loop a env (n + 1)
                 (emit (Sleep (if 0 < interval a then interval a else 1))
                    (fst (try_except a env n st)))) = Done"
        and "fst (snd (main_loop a env (n + 1)
                 (emit (Sleep (if 0 < interval a then interval a else 1))
                    (fst (try_except a env n st))))) = max (n + 1) (count a)"
        and "fetches (snd (snd (main_loop a env (n + 1)
                 (emit (Sleep (if 0 < interval a then interval a else 1))
                    (fst (try_except a env n st))))))
              = Suc (fetches st) + nat (count a - (n + 1))"
        by (simp_all add: fetches_emit try_except_fetches)
      moreover from lt have "Suc (nat (count a - (n + 1))) = nat (count a - n)" by simp
      ultimately show ?thesis using lt nb False by (simp add: main_loop_next)
    qed
  qed
qed

lemma main_loop_three_cycles:
  assumes "count a = 3"
    and "source_succeeds a env 0" and "source_succeeds a env 1" and "source_succeeds a env 2"
    and "history_dir_exists a st"
  shows "fst (main_loop a env 0 st) = Done \<and>
         fst (snd (main_loop a env 0 st)) = 3 \<and>
         fetches (snd (snd (main_loop a env 0 st))) = fetches st + 3"
proof -
  have "source_succeeds a env m" if "0 \<le> m" and "m < count a" for m
  proof -
    from that assms(1) have "m = 0 \<or> m = 1 \<or> m = 2" by auto
    with assms(2-4) show ?thesis by auto
  qed
  from main_loop_completes[OF this assms(5), of 0] assms(1) show ?thesis by simp
qed

text \<open>\<open>main\<close> leaves with exit code 1 before the loop when no field is selected.\<close>

lemma main_no_fields:
  "selected a = [] \<Longrightarrow>
   main a env fs = (1, None, \<lparr>disk = fs, actions = [Print NoFieldsSpecified]\<rparr>)"
  by (simp add: main_def emit_def)

text \<open>Otherwise \<open>main\<close> runs the loop from run 0 on an empty console and exits with 0.\<close>

lemma main_runs_loop:
  "selected a \<noteq> [] \<Longrightarrow>
   main a env fs =
     (0, Some (fst (main_loop a env 0 \<lparr>disk = fs, actions = []\<rparr>)),
      emit (Print DoneLine) (snd (snd (main_loop a env 0 \<lparr>disk = fs, actions = []\<rparr>))))"
  by (simp add: main_def split: prod.splits)


end
